theory Spec2Isabelle
  imports Complex_Main
begin

section \<open>Data model\<close>

text \<open>
  The program of \<^verbatim>\<open>src/main.py\<close> works on a pandas data frame.  The frame is modelled as a
  list of rows over the fixed schema the program reads, together with one flag for each of
  the three optional columns (\<^verbatim>\<open>'shape' in df.columns\<close> and its siblings are tests on the
  frame, not on a row).

  A cell that pandas reports as \<^verbatim>\<open>NaN\<close> or \<^verbatim>\<open>NaT\<close> is \<open>None\<close>.  The calls
  \<^verbatim>\<open>pd.to_datetime(..., errors='coerce')\<close> and \<^verbatim>\<open>pd.to_numeric(..., errors='coerce')\<close> are
  library parsers: a row of the model holds, in its \<open>datetime\<close>, \<open>duration_seconds\<close>,
  \<open>latitude\<close> and \<open>longitude\<close> fields, the value these parsers assign to the raw text,
  \<open>None\<close> when the text is missing or rejected.  Both parsers leave an already parsed
  column unchanged.  Floating point numbers are modelled as reals; the infinities, which
  no filter of the program lets through, are left out.

  Text cells are strings of one-byte characters and stand for ASCII text: the case
  conversions and the trimming below are those of Python on ASCII characters.  On other
  characters they leave the text as it is, where Python also converts accented letters
  and strips the no-break space and the next-line character.
\<close>

record timestamp =
  ts_year :: int
  ts_month :: int
  ts_day :: int
  ts_hour :: int
  ts_minute :: int
  ts_second :: int

record row =
  datetime :: "timestamp option"
  year :: "int option"
  month :: "int option"
  hour :: "int option"
  duration_seconds :: "real option"
  latitude :: "real option"
  longitude :: "real option"
  shape :: "string option"
  country :: "string option"
  state :: "string option"

record dataframe =
  has_shape :: bool
  has_country :: bool
  has_state :: bool
  rows :: "row list"

definition MAX_POINTS_ON_GLOBE :: nat where
  "MAX_POINTS_ON_GLOBE = 10000"

section \<open>Column operations of the library\<close>

text \<open>Comparisons of a float column with a number: a comparison with \<^verbatim>\<open>NaN\<close> is false.\<close>

definition col_gt :: "real option \<Rightarrow> real \<Rightarrow> bool" where
  "col_gt c x = (case c of None \<Rightarrow> False | Some v \<Rightarrow> x < v)"

definition col_lt :: "real option \<Rightarrow> real \<Rightarrow> bool" where
  "col_lt c x = (case c of None \<Rightarrow> False | Some v \<Rightarrow> v < x)"

definition col_ge :: "real option \<Rightarrow> real \<Rightarrow> bool" where
  "col_ge c x = (case c of None \<Rightarrow> False | Some v \<Rightarrow> x \<le> v)"

definition col_le :: "real option \<Rightarrow> real \<Rightarrow> bool" where
  "col_le c x = (case c of None \<Rightarrow> False | Some v \<Rightarrow> v \<le> x)"

text \<open>\<^verbatim>\<open>str.lower\<close>, \<^verbatim>\<open>str.upper\<close> and \<^verbatim>\<open>str.strip\<close> on ASCII text.  The characters
  Python strips are those of \<^verbatim>\<open>str.isspace\<close>: codes 9 to 13, 28 to 31 and 32.\<close>

definition lower_char :: "char \<Rightarrow> char" where
  "lower_char c =
     (let n = (of_char c :: nat) in if 65 \<le> n \<and> n \<le> 90 then char_of (n + 32) else c)"

definition upper_char :: "char \<Rightarrow> char" where
  "upper_char c =
     (let n = (of_char c :: nat) in if 97 \<le> n \<and> n \<le> 122 then char_of (n - 32) else c)"

definition is_space :: "char \<Rightarrow> bool" where
  "is_space c =
     (let n = (of_char c :: nat) in (9 \<le> n \<and> n \<le> 13) \<or> (28 \<le> n \<and> n \<le> 31) \<or> n = 32)"

definition lower :: "string \<Rightarrow> string" where
  "lower s = map lower_char s"

definition upper :: "string \<Rightarrow> string" where
  "upper s = map upper_char s"

definition strip :: "string \<Rightarrow> string" where
  "strip s = rev (dropWhile is_space (rev (dropWhile is_space s)))"

text \<open>\<^verbatim>\<open>Series.astype(str)\<close> turns every cell into a string; a missing cell becomes the
  text \<^verbatim>\<open>nan\<close>.  The \<^verbatim>\<open>.str\<close> accessors keep a missing cell missing.\<close>

definition astype_str :: "string option \<Rightarrow> string option" where
  "astype_str c = (case c of None \<Rightarrow> Some ''nan'' | Some s \<Rightarrow> Some s)"

definition str_lower :: "string option \<Rightarrow> string option" where
  "str_lower c = map_option lower c"

definition str_upper :: "string option \<Rightarrow> string option" where
  "str_upper c = map_option upper c"

definition str_strip :: "string option \<Rightarrow> string option" where
  "str_strip c = map_option strip c"

definition replace_values :: "string list \<Rightarrow> string \<Rightarrow> string option \<Rightarrow> string option" where
  "replace_values olds new c =
     (case c of None \<Rightarrow> None | Some s \<Rightarrow> if s \<in> set olds then Some new else Some s)"

definition assign_where_eq :: "string \<Rightarrow> string \<Rightarrow> string option \<Rightarrow> string option" where
  "assign_where_eq old new c = (if c = Some old then Some new else c)"

definition fillna :: "'a \<Rightarrow> 'a option \<Rightarrow> 'a option" where
  "fillna v c = (case c of None \<Rightarrow> Some v | Some x \<Rightarrow> Some x)"

definition dropna :: "'a option list \<Rightarrow> 'a option list" where
  "dropna col = filter (\<lambda>c. c \<noteq> None) col"

section \<open>The cleaner: \<^verbatim>\<open>clean_data\<close>\<close>

text \<open>The three derived columns, read from the parsed time stamp (\<^verbatim>\<open>.dt.year\<close> and its
  siblings give a missing value on \<^verbatim>\<open>NaT\<close>).\<close>

definition extract_year_month_hour :: "row \<Rightarrow> row" where
  "extract_year_month_hour r =
     r\<lparr>year := map_option ts_year (datetime r),
       month := map_option ts_month (datetime r),
       hour := map_option ts_hour (datetime r)\<rparr>"

definition clean_shape :: "string option \<Rightarrow> string option" where
  "clean_shape c =
     fillna ''various''
       (replace_values [''unknown'', ''other'', ''nan'', '''', ''na'', ''unspecified''] ''various''
          (str_strip (str_lower (astype_str c))))"

definition clean_country :: "string option \<Rightarrow> string option" where
  "clean_country c =
     fillna ''unknown''
       (assign_where_eq '''' ''unknown''
          (assign_where_eq ''gb'' ''uk''
             (str_strip (str_lower (astype_str c)))))"

definition clean_state :: "string option \<Rightarrow> string option" where
  "clean_state c =
     fillna ''UNKNOWN''
       (assign_where_eq '''' ''UNKNOWN''
          (str_strip (str_upper (astype_str c))))"

text \<open>The body of \<^verbatim>\<open>clean_data\<close>, one binding for each statement that changes the frame, in
  the order of the source.\<close>

definition clean_data :: "dataframe \<Rightarrow> dataframe" where
  "clean_data df =
     (let r1 = filter (\<lambda>r. datetime r \<noteq> None) (rows df);
          r2 = map extract_year_month_hour r1;
          r3 = filter (\<lambda>r. col_gt (duration_seconds r) 0 \<and> col_lt (duration_seconds r) 604800) r2;
          r4 = filter (\<lambda>r. latitude r \<noteq> None \<and> longitude r \<noteq> None \<and> duration_seconds r \<noteq> None) r3;
          r5 = filter (\<lambda>r. col_ge (latitude r) (- 90) \<and> col_le (latitude r) 90) r4;
          r6 = filter (\<lambda>r. col_ge (longitude r) (- 180) \<and> col_le (longitude r) 180) r5;
          r7 = (if has_shape df then map (\<lambda>r. r\<lparr>shape := clean_shape (shape r)\<rparr>) r6 else r6);
          r8 = (if has_country df then map (\<lambda>r. r\<lparr>country := clean_country (country r)\<rparr>) r7 else r7);
          r9 = (if has_state df then map (\<lambda>r. r\<lparr>state := clean_state (state r)\<rparr>) r8 else r8)
      in df\<lparr>rows := r9\<rparr>)"

text \<open>The same function read row by row: what becomes of one raw row.\<close>

definition survives :: "row \<Rightarrow> bool" where
  "survives r \<longleftrightarrow>
     datetime r \<noteq> None \<and>
     col_gt (duration_seconds r) 0 \<and> col_lt (duration_seconds r) 604800 \<and>
     latitude r \<noteq> None \<and> longitude r \<noteq> None \<and>
     col_ge (latitude r) (- 90) \<and> col_le (latitude r) 90 \<and>
     col_ge (longitude r) (- 180) \<and> col_le (longitude r) 180"

definition normalize :: "dataframe \<Rightarrow> row \<Rightarrow> row" where
  "normalize df r =
     (let a = extract_year_month_hour r;
          b = (if has_shape df then a\<lparr>shape := clean_shape (shape a)\<rparr> else a);
          c = (if has_country df then b\<lparr>country := clean_country (country b)\<rparr> else b)
      in (if has_state df then c\<lparr>state := clean_state (state c)\<rparr> else c))"

text \<open>The rows the duration filter and the position filters are meant to reject.\<close>

definition duration_rejected :: "row \<Rightarrow> bool" where
  "duration_rejected r = (case duration_seconds r of None \<Rightarrow> False | Some d \<Rightarrow> d \<le> 0 \<or> 604800 \<le> d)"

definition position_rejected :: "row \<Rightarrow> bool" where
  "position_rejected r \<longleftrightarrow>
     (case latitude r of None \<Rightarrow> False | Some la \<Rightarrow> la < - 90 \<or> 90 < la) \<or>
     (case longitude r of None \<Rightarrow> False | Some lo \<Rightarrow> lo < - 180 \<or> 180 < lo)"

text \<open>A raw sighting and a frame with all three optional columns, for concrete evaluations.\<close>

definition example_row :: row where
  "example_row =
     \<lparr>datetime = Some \<lparr>ts_year = 1999, ts_month = 10, ts_day = 10, ts_hour = 20,
                         ts_minute = 30, ts_second = 0\<rparr>,
      year = None, month = None, hour = None,
      duration_seconds = Some 120, latitude = Some 29.5, longitude = Some (- 97.75),
      shape = Some ''Cylinder'', country = Some ''US'', state = Some ''tx''\<rparr>"

definition example_frame :: "row list \<Rightarrow> dataframe" where
  "example_frame rs = \<lparr>has_shape = True, has_country = True, has_state = True, rows = rs\<rparr>"

section \<open>The summary builder: \<^verbatim>\<open>perform_eda\<close>\<close>

text \<open>
  \<^verbatim>\<open>Series.value_counts()\<close> counts the occurrences of each value of a column, missing cells
  left out.  The order in which the library lists the categories does not matter to the
  program, which sorts by category at once (\<^verbatim>\<open>sort_index()\<close>).  A counted series is an
  association list from category to count.
\<close>

definition present :: "'a option list \<Rightarrow> 'a list" where
  "present col = concat (map (\<lambda>c. case c of None \<Rightarrow> [] | Some v \<Rightarrow> [v]) col)"

definition value_counts :: "'a option list \<Rightarrow> ('a \<times> nat) list" where
  "value_counts col = map (\<lambda>k. (k, count_list (present col) k)) (remdups (present col))"

definition sort_index :: "(('k::linorder) \<times> nat) list \<Rightarrow> ('k \<times> nat) list" where
  "sort_index kvs = sort_key fst kvs"

text \<open>\<^verbatim>\<open>Series.idxmax()\<close>: the label of the first entry that holds the maximum.  On an empty
  series the library raises; the program tests for emptiness first, and \<open>None\<close> stands for
  the empty series here.\<close>

definition idxmax :: "('k \<times> nat) list \<Rightarrow> 'k option" where
  "idxmax kvs =
     (case kvs of [] \<Rightarrow> None
      | _ \<Rightarrow> map_option fst (find (\<lambda>kv. snd kv = Max (set (map snd kvs))) kvs))"

text \<open>Index labels: the month counts are relabelled with month names by
  \<^verbatim>\<open>rename(index=month_map)\<close>, which leaves a label outside the map as it is.\<close>

datatype label = IntLabel int | StrLabel string

definition month_map :: "(int \<times> string) list" where
  "month_map =
     [(1, ''Jan''), (2, ''Feb''), (3, ''Mar''), (4, ''Apr''), (5, ''May''), (6, ''Jun''),
      (7, ''Jul''), (8, ''Aug''), (9, ''Sep''), (10, ''Oct''), (11, ''Nov''), (12, ''Dec'')]"

definition rename_label :: "(int \<times> string) list \<Rightarrow> int \<Rightarrow> label" where
  "rename_label m k = (case map_of m k of None \<Rightarrow> IntLabel k | Some s \<Rightarrow> StrLabel s)"

definition rename_index :: "(int \<times> string) list \<Rightarrow> (int \<times> nat) list \<Rightarrow> (label \<times> nat) list" where
  "rename_index m kvs = map (\<lambda>kv. (rename_label m (fst kv), snd kv)) kvs"

text \<open>\<^verbatim>\<open>str\<close> of an integer, for the f-strings and \<^verbatim>\<open>str(...)\<close> of the program.\<close>

fun digits :: "nat \<Rightarrow> string" where
  "digits n =
     (if n < 10 then [char_of (48 + n)] else digits (n div 10) @ [char_of (48 + n mod 10)])"

declare digits.simps [simp del]

definition str_int :: "int \<Rightarrow> string" where
  "str_int i = (if i < 0 then CHR ''-'' # digits (nat (- i)) else digits (nat i))"

text \<open>\<^verbatim>\<open>Series.median()\<close> skips missing cells and is \<^verbatim>\<open>NaN\<close> when nothing is left;
  \<^verbatim>\<open>round(x, 2)\<close> rounds to two decimals, a tie going to the even neighbour.  \<open>round2\<close>
  rounds the exact real number; Python rounds the floating point product, which can fall
  on the other side of a tie (\<open>23 / 160 * 100\<close> is \<open>14.38\<close> here and \<open>14.37\<close> in Python).\<close>

definition median :: "real option list \<Rightarrow> real option" where
  "median col =
     (let s = sort (present col); n = length s
      in if n = 0 then None
         else if odd n then Some (s ! (n div 2))
         else Some ((s ! (n div 2 - 1) + s ! (n div 2)) / 2))"

definition round_half_even :: "real \<Rightarrow> int" where
  "round_half_even x =
     (let f = \<lfloor>x\<rfloor>; d = x - of_int f
      in if d < 1 / 2 then f else if 1 / 2 < d then f + 1 else if even f then f else f + 1)"

definition round2 :: "real \<Rightarrow> real" where
  "round2 x = of_int (round_half_even (x * 100)) / 100"

datatype error = KeyError string

record summary =
  total_sightings :: nat
  median_duration_seconds_overall :: "real option"
  peak_month :: label
  peak_hour_readable :: string
  peak_hour_numeric :: "int option"
  peak_year_of_reports :: string
  median_duration_night_seconds :: "real option"
  median_duration_day_seconds :: "real option"
  proportion_over_5_min_percent :: real
  proportion_over_1_hour_percent :: real
  sightings_by_year :: "(int \<times> nat) list"
  sightings_by_month :: "(label \<times> nat) list"
  sightings_by_hour :: "(int \<times> nat) list"

definition is_night :: "int option \<Rightarrow> bool" where
  "is_night h = (case h of None \<Rightarrow> False | Some v \<Rightarrow> (18 \<le> v \<and> v \<le> 23) \<or> (0 \<le> v \<and> v \<le> 5))"

text \<open>
  \<^verbatim>\<open>perform_eda\<close>.  The rankings of the source (\<^verbatim>\<open>top_countries\<close>, \<^verbatim>\<open>top_states_us\<close>,
  \<^verbatim>\<open>top_shapes\<close> and the entries computed from them) follow the order in which the library
  lists equal counts; of these statements the model keeps that they read the columns
  \<^verbatim>\<open>country\<close>, \<^verbatim>\<open>state\<close> and \<^verbatim>\<open>shape\<close>, in this order, and fail with \<^verbatim>\<open>KeyError\<close> on a
  frame that lacks the column.  All other entries of the returned dictionary are computed
  as the source does.
\<close>

definition perform_eda :: "dataframe \<Rightarrow> error + summary" where
  "perform_eda df =
     (let rs = rows df;
          median_duration_overall =
            (if rs \<noteq> [] then median (map duration_seconds rs) else None);
          sightings_by_year = sort_index (value_counts (map year rs));
          sightings_by_month_named =
            rename_index month_map (sort_index (value_counts (map month rs)));
          peak_month_name =
            (case idxmax sightings_by_month_named of None \<Rightarrow> StrLabel ''N/A'' | Some l \<Rightarrow> l);
          sightings_by_hour = sort_index (value_counts (map hour rs));
          peak_hour_numeric = idxmax sightings_by_hour;
          peak_hour_readable =
            (case peak_hour_numeric of None \<Rightarrow> ''N/A''
             | Some h \<Rightarrow> str_int h @ '':00 - '' @ str_int (h + 1) @ '':00'')
      in if \<not> has_country df then Inl (KeyError ''country'')
         else if \<not> has_state df then Inl (KeyError ''state'')
         else if \<not> has_shape df then Inl (KeyError ''shape'')
         else
           (let peak_year_report =
                  (case idxmax sightings_by_year of None \<Rightarrow> ''N/A'' | Some y \<Rightarrow> str_int y);
                night_durations =
                  dropna (map duration_seconds (filter (\<lambda>r. is_night (hour r)) rs));
                day_durations =
                  dropna (map duration_seconds (filter (\<lambda>r. \<not> is_night (hour r)) rs));
                median_duration_night =
                  (if night_durations \<noteq> [] then median night_durations else None);
                median_duration_day =
                  (if day_durations \<noteq> [] then median day_durations else None);
                count_long_duration = length (filter (\<lambda>r. col_gt (duration_seconds r) 300) rs);
                proportion_long_duration =
                  (if length rs > 0
                   then real count_long_duration / real (length rs) * 100 else 0);
                count_very_long_duration =
                  length (filter (\<lambda>r. col_gt (duration_seconds r) 3600) rs);
                proportion_very_long_duration =
                  (if length rs > 0
                   then real count_very_long_duration / real (length rs) * 100 else 0)
            in Inr \<lparr>total_sightings = length rs,
                    median_duration_seconds_overall = median_duration_overall,
                    peak_month = peak_month_name,
                    peak_hour_readable = peak_hour_readable,
                    peak_hour_numeric = peak_hour_numeric,
                    peak_year_of_reports = peak_year_report,
                    median_duration_night_seconds = median_duration_night,
                    median_duration_day_seconds = median_duration_day,
                    proportion_over_5_min_percent = round2 proportion_long_duration,
                    proportion_over_1_hour_percent = round2 proportion_very_long_duration,
                    sightings_by_year = sightings_by_year,
                    sightings_by_month = sightings_by_month_named,
                    sightings_by_hour = sightings_by_hour\<rparr>))"

section \<open>The globe exporter: \<^verbatim>\<open>export_globe_data\<close>\<close>

text \<open>
  \<^verbatim>\<open>df.sample(n=MAX_POINTS_ON_GLOBE, random_state=42)\<close> is the library's random sample
  without replacement: the rows at the positions the library picks.  The exporter is
  written over the function \<open>pick\<close> that gives these positions for a number of rows and a
  sample size; the library's own function is \<open>sample_random_state_42\<close> below.
  \<open>first_positions\<close> is a simple such function, for concrete evaluations in which no
  sample is drawn.
\<close>

definition df_sample :: "(nat \<Rightarrow> nat \<Rightarrow> nat list) \<Rightarrow> nat \<Rightarrow> row list \<Rightarrow> row list" where
  "df_sample pick n rs = map (\<lambda>i. rs ! i) (pick (length rs) n)"

definition first_positions :: "nat \<Rightarrow> nat \<Rightarrow> nat list" where
  "first_positions N n = [0..<n]"

text \<open>
  The library's sampler.  \<^verbatim>\<open>DataFrame.sample(n, random_state=42)\<close> builds the generator
  \<^verbatim>\<open>numpy.random.RandomState(42)\<close> and takes the rows at the positions
  \<^verbatim>\<open>choice(len(df), size=n, replace=False)\<close>, which are the first \<open>n\<close> entries of
  \<^verbatim>\<open>permutation(len(df))\<close>: the positions \<open>0, ..., len(df) - 1\<close> shuffled in place, for
  \<open>i\<close> from the last position down to 1 by exchanging the entries at \<open>i\<close> and at a random
  \<open>j\<close> in \<open>[0, i]\<close>.

  The bit generator itself is not modelled: \<open>'s\<close> is the type of its states,
  \<open>seed_state s\<close> the state after seeding with \<open>s\<close>, \<open>entropy_state\<close> the state of an
  unseeded generator (taken from the operating system, another one in every run), and
  \<open>rk_interval mx st\<close> the draw of a number for the bound \<open>mx\<close> in state \<open>st\<close>, with the
  next state.  That the library's draw lies in \<open>[0, mx]\<close> is kept by reducing it modulo
  \<open>mx + 1\<close>.  Nothing else is assumed of the generator.  For a size above the population
  \<^verbatim>\<open>choice\<close> raises; \<^verbatim>\<open>export_globe_data\<close> calls it on larger frames only.
\<close>

record 's mtrand =
  seed_state :: "nat \<Rightarrow> 's"
  entropy_state :: 's
  rk_interval :: "nat \<Rightarrow> 's \<Rightarrow> nat \<times> 's"

definition RandomState :: "'s mtrand \<Rightarrow> nat option \<Rightarrow> 's" where
  "RandomState lib seed = (case seed of None \<Rightarrow> entropy_state lib | Some s \<Rightarrow> seed_state lib s)"

definition random_interval :: "'s mtrand \<Rightarrow> 's \<Rightarrow> nat \<Rightarrow> nat \<times> 's" where
  "random_interval lib st mx = (let (r, st') = rk_interval lib mx st in (r mod Suc mx, st'))"

fun shuffle_raw :: "'s mtrand \<Rightarrow> nat \<Rightarrow> 's \<Rightarrow> nat list \<Rightarrow> nat list" where
  "shuffle_raw lib 0 st xs = xs"
| "shuffle_raw lib (Suc k) st xs =
     (let r = random_interval lib st (Suc k); j = fst r; st' = snd r
      in shuffle_raw lib k st' (xs[j := xs ! Suc k, Suc k := xs ! j]))"

definition permutation :: "'s mtrand \<Rightarrow> 's \<Rightarrow> nat \<Rightarrow> nat list" where
  "permutation lib st n = shuffle_raw lib (n - 1) st [0..<n]"

definition choice :: "'s mtrand \<Rightarrow> 's \<Rightarrow> nat \<Rightarrow> nat \<Rightarrow> nat list" where
  "choice lib st pop_size n = take n (permutation lib st pop_size)"

text \<open>The positions picked by \<^verbatim>\<open>df.sample(n=n, random_state=42)\<close> on a frame of
  \<open>obj_len\<close> rows.\<close>

definition sample_random_state_42 :: "'s mtrand \<Rightarrow> nat \<Rightarrow> nat \<Rightarrow> nat list" where
  "sample_random_state_42 lib obj_len n = choice lib (RandomState lib (Some 42)) obj_len n"

text \<open>A small congruential generator, for concrete evaluations.\<close>

definition example_generator :: "nat mtrand" where
  "example_generator =
     \<lparr>seed_state = (\<lambda>s. s), entropy_state = 0,
      rk_interval = (\<lambda>mx st. ((st * 5 + 3) mod 16, (st * 5 + 3) mod 16))\<rparr>"

record globe_point =
  lat :: "real option"
  lng :: "real option"
  alt :: real
  radius :: real
  color :: string

definition clip_lower :: "real \<Rightarrow> real option \<Rightarrow> real option" where
  "clip_lower lo c = map_option (\<lambda>x. max x lo) c"

definition clip :: "real \<Rightarrow> real \<Rightarrow> real option \<Rightarrow> real option" where
  "clip lo hi c = map_option (\<lambda>x. min (max x lo) hi) c"

text \<open>The rows that are exported, and their \<^verbatim>\<open>magnitude\<close> column.\<close>

definition globe_rows :: "(nat \<Rightarrow> nat \<Rightarrow> nat list) \<Rightarrow> dataframe \<Rightarrow> row list" where
  "globe_rows pick df =
     (if length (rows df) > MAX_POINTS_ON_GLOBE
      then df_sample pick MAX_POINTS_ON_GLOBE (rows df) else rows df)"

definition magnitude_column :: "row list \<Rightarrow> real option list" where
  "magnitude_column rs =
     (if dropna (map duration_seconds rs) \<noteq> [] then
        (let min_duration = 1; max_duration_cap = 3600 * 24;
             positive_duration = map (clip_lower (1 / 1000000)) (map duration_seconds rs);
             normalized_duration = map (clip min_duration max_duration_cap) positive_duration;
             log_min_duration = ln min_duration;
             log_max_duration_cap = ln max_duration_cap;
             log_norm_duration =
               (if log_max_duration_cap > log_min_duration
                then map (map_option (\<lambda>x. (ln x - log_min_duration) /
                                           (log_max_duration_cap - log_min_duration)))
                       normalized_duration
                else map (\<lambda>_. Some (1 / 10)) rs);
             magnitude = map (map_option (\<lambda>t. 3 / 100 + t * (25 / 100))) log_norm_duration
         in map (fillna (3 / 100)) magnitude)
      else map (\<lambda>_. Some (3 / 100)) rs)"

text \<open>Python's \<^verbatim>\<open>max(0.01, m)\<close> returns \<^verbatim>\<open>m\<close> when \<^verbatim>\<open>m > 0.01\<close> and \<^verbatim>\<open>0.01\<close> otherwise, also
  for a missing \<^verbatim>\<open>m\<close>.\<close>

definition py_max :: "real \<Rightarrow> real option \<Rightarrow> real" where
  "py_max a m = (case m of None \<Rightarrow> a | Some b \<Rightarrow> if a < b then b else a)"

definition globe_point_of :: "row \<Rightarrow> real option \<Rightarrow> globe_point" where
  "globe_point_of r m =
     \<lparr>lat = latitude r, lng = longitude r, alt = 5 / 1000,
      radius = py_max (1 / 100) m, color = ''rgba(255, 255, 0, 0.7)''\<rparr>"

text \<open>\<^verbatim>\<open>export_globe_data\<close> returns nothing and writes a file; the model returns the list of
  points it writes.\<close>

definition export_globe_data :: "(nat \<Rightarrow> nat \<Rightarrow> nat list) \<Rightarrow> dataframe \<Rightarrow> globe_point list" where
  "export_globe_data pick df =
     (if rows df = [] then []
      else (let globe_df = globe_rows pick df
            in map2 globe_point_of globe_df (magnitude_column globe_df)))"

text \<open>The scale \<open>t\<close> as the specification states it: the logarithm of the duration clamped
  to \<open>[1, 86400]\<close>, over the logarithm of 86400.  It is compared below with what
  \<open>magnitude_column\<close> computes.\<close>

definition log_scale :: "real \<Rightarrow> real" where
  "log_scale d = ln (min (max d 1) 86400) / ln 86400"

section \<open>The main block\<close>

text \<open>
  The two files the main block writes, from the cleaning of the loaded frame on (the
  loading of the file and the tests for the four required columns come before).  The
  summary file holds the dictionary that \<^verbatim>\<open>perform_eda\<close> returns, with the entries the
  model computes, or the empty dictionary.
\<close>

datatype json =
  JNull | JInt int | JReal real | JStr string | JLabel label | JCounts "(label \<times> nat) list"

definition json_opt :: "('a \<Rightarrow> json) \<Rightarrow> 'a option \<Rightarrow> json" where
  "json_opt f c = (case c of None \<Rightarrow> JNull | Some v \<Rightarrow> f v)"

definition summary_dict :: "summary \<Rightarrow> (string \<times> json) list" where
  "summary_dict s =
     [(''total_sightings'', JInt (int (total_sightings s))),
      (''median_duration_seconds_overall'', json_opt JReal (median_duration_seconds_overall s)),
      (''peak_month'', JLabel (peak_month s)),
      (''peak_hour_readable'', JStr (peak_hour_readable s)),
      (''peak_hour_numeric'', json_opt JInt (peak_hour_numeric s)),
      (''peak_year_of_reports'', JStr (peak_year_of_reports s)),
      (''median_duration_night_seconds'', json_opt JReal (median_duration_night_seconds s)),
      (''median_duration_day_seconds'', json_opt JReal (median_duration_day_seconds s)),
      (''proportion_over_5_min_percent'', JReal (proportion_over_5_min_percent s)),
      (''proportion_over_1_hour_percent'', JReal (proportion_over_1_hour_percent s)),
      (''sightings_by_year'', JCounts (map (\<lambda>kv. (IntLabel (fst kv), snd kv)) (sightings_by_year s))),
      (''sightings_by_month'', JCounts (sightings_by_month s)),
      (''sightings_by_hour'', JCounts (map (\<lambda>kv. (IntLabel (fst kv), snd kv)) (sightings_by_hour s)))]"

record artifacts =
  eda_summary_json :: "(string \<times> json) list"
  sightings_for_globe_json :: "globe_point list"

definition main :: "(nat \<Rightarrow> nat \<Rightarrow> nat list) \<Rightarrow> dataframe \<Rightarrow> error + artifacts" where
  "main pick raw_df =
     (let df = clean_data raw_df
      in if rows df = [] then
           Inr \<lparr>eda_summary_json = [],
                sightings_for_globe_json = export_globe_data pick df\<rparr>
         else
           (case perform_eda df of
              Inl e \<Rightarrow> Inl e
            | Inr eda_summary \<Rightarrow>
                Inr \<lparr>eda_summary_json = summary_dict eda_summary,
                     sightings_for_globe_json = export_globe_data pick df\<rparr>))"

text \<open>A second sighting and a small frame of sightings, one of them without latitude.\<close>

definition example_row_2004 :: row where
  "example_row_2004 =
     example_row\<lparr>datetime := Some \<lparr>ts_year = 2004, ts_month = 6, ts_day = 1, ts_hour = 3,
                                      ts_minute = 0, ts_second = 0\<rparr>,
                 duration_seconds := Some 600\<rparr>"

definition example_sightings :: dataframe where
  "example_sightings =
     example_frame [example_row_2004, example_row, example_row\<lparr>latitude := None\<rparr>,
                    example_row_2004, example_row]"

section \<open>Properties of the cleaner\<close>

lemma filter_map_extract:
  "filter P (map extract_year_month_hour xs) =
   map extract_year_month_hour (filter (\<lambda>r. P (extract_year_month_hour r)) xs)"
  by (simp add: filter_map comp_def)

lemma clean_data_rows:
  "rows (clean_data df) = map (normalize df) (filter survives (rows df))"
proof -
  have surv: "survives = (\<lambda>r. datetime r \<noteq> None \<and>
     (col_gt (duration_seconds r) 0 \<and> col_lt (duration_seconds r) 604800) \<and>
     (latitude r \<noteq> None \<and> longitude r \<noteq> None \<and> duration_seconds r \<noteq> None) \<and>
     (col_ge (latitude r) (- 90) \<and> col_le (latitude r) 90) \<and>
     (col_ge (longitude r) (- 180) \<and> col_le (longitude r) 180))"
    by (auto simp: survives_def fun_eq_iff col_gt_def split: option.splits)
  have flt: "filter (\<lambda>r. col_ge (longitude r) (- 180) \<and> col_le (longitude r) 180)
      (filter (\<lambda>r. col_ge (latitude r) (- 90) \<and> col_le (latitude r) 90)
        (filter (\<lambda>r. latitude r \<noteq> None \<and> longitude r \<noteq> None \<and> duration_seconds r \<noteq> None)
          (filter (\<lambda>r. col_gt (duration_seconds r) 0 \<and> col_lt (duration_seconds r) 604800)
            (map extract_year_month_hour (filter (\<lambda>r. datetime r \<noteq> None) (rows df))))))
     = map extract_year_month_hour (filter survives (rows df))"
    unfolding surv filter_map_extract
    by (simp add: extract_year_month_hour_def conj_commute conj_left_commute cong: conj_cong)
  show ?thesis
    unfolding clean_data_def Let_def flt
    by (simp add: normalize_def Let_def comp_def)
qed

subsection \<open>Text normalisation\<close>

lemma lower_char_idem: "lower_char (lower_char c) = lower_char c"
  by (simp add: lower_char_def Let_def)

lemma upper_char_idem: "upper_char (upper_char c) = upper_char c"
  by (auto simp add: upper_char_def Let_def)

lemma is_space_lower_char: "is_space (lower_char c) = is_space c"
  by (auto simp add: is_space_def lower_char_def Let_def)

lemma is_space_upper_char: "is_space (upper_char c) = is_space c"
  by (auto simp add: is_space_def upper_char_def Let_def)

lemma dropWhile_front_fixed:
  "dropWhile P (rev (dropWhile P (rev (dropWhile P s)))) = rev (dropWhile P (rev (dropWhile P s)))"
proof -
  define t where "t = dropWhile P s"
  define u where "u = rev (dropWhile P (rev t))"
  have split: "t = u @ rev (takeWhile P (rev t))"
  proof -
    have "rev (takeWhile P (rev t) @ dropWhile P (rev t)) = t"
      by (simp only: takeWhile_dropWhile_id rev_rev_ident)
    then show ?thesis by (simp only: u_def rev_append)
  qed
  have "dropWhile P u = u"
  proof (cases u)
    case Nil
    then show ?thesis by simp
  next
    case (Cons a w)
    with split obtain v where "t = a # v" by (metis append_Cons)
    then have "dropWhile P s = a # v" by (simp only: t_def)
    then have "\<not> P a" using hd_dropWhile [of P s] by simp
    then show ?thesis using Cons by simp
  qed
  then show ?thesis by (simp add: u_def t_def)
qed

lemma strip_idem: "strip (strip s) = strip s"
  by (simp add: strip_def dropWhile_front_fixed)

lemma strip_map:
  assumes "\<And>c. is_space (f c) = is_space c"
  shows "strip (map f s) = map f (strip s)"
  using assms by (simp add: strip_def dropWhile_map rev_map comp_def)

lemma lower_strip: "lower (strip s) = strip (lower s)"
  by (simp add: lower_def strip_map is_space_lower_char)

lemma upper_strip: "upper (strip s) = strip (upper s)"
  by (simp add: upper_def strip_map is_space_upper_char)

lemma lower_idem: "lower (lower s) = lower s"
  by (simp add: lower_def lower_char_idem)

lemma upper_idem: "upper (upper s) = upper s"
  by (simp add: upper_def upper_char_idem)

lemma strip_lower_idem: "strip (lower (strip (lower s))) = strip (lower s)"
  by (simp add: lower_strip strip_idem lower_idem)

lemma strip_upper_idem: "strip (upper (strip (upper s))) = strip (upper s)"
  by (simp add: upper_strip strip_idem upper_idem)

lemma sentinel_texts:
  "strip (lower ''various'') = ''various''"
  "strip (lower ''uk'') = ''uk''"
  "strip (lower ''unknown'') = ''unknown''"
  "strip (upper ''UNKNOWN'') = ''UNKNOWN''"
  by code_simp+

lemma clean_shape_Some:
  "clean_shape c =
     Some (let s = strip (lower (case c of None \<Rightarrow> ''nan'' | Some t \<Rightarrow> t))
           in if s \<in> set [''unknown'', ''other'', ''nan'', '''', ''na'', ''unspecified'']
              then ''various'' else s)"
  by (cases c)
     (simp_all add: clean_shape_def fillna_def replace_values_def str_strip_def str_lower_def
        astype_str_def Let_def)

lemma clean_country_Some:
  "clean_country c =
     Some (let s = strip (lower (case c of None \<Rightarrow> ''nan'' | Some t \<Rightarrow> t))
           in if s = '''' then ''unknown'' else if s = ''gb'' then ''uk'' else s)"
  by (cases c)
     (simp_all add: clean_country_def fillna_def assign_where_eq_def str_strip_def str_lower_def
        astype_str_def Let_def)

lemma clean_state_Some:
  "clean_state c =
     Some (let s = strip (upper (case c of None \<Rightarrow> ''nan'' | Some t \<Rightarrow> t))
           in if s = '''' then ''UNKNOWN'' else s)"
  by (cases c)
     (simp_all add: clean_state_def fillna_def assign_where_eq_def str_strip_def str_upper_def
        astype_str_def Let_def)

lemma clean_shape_idem: "clean_shape (clean_shape c) = clean_shape c"
  by (simp add: clean_shape_Some [of "Some x" for x] clean_shape_Some [of c] Let_def
      sentinel_texts strip_lower_idem)

lemma clean_country_idem: "clean_country (clean_country c) = clean_country c"
  by (simp add: clean_country_Some [of "Some x" for x] clean_country_Some [of c] Let_def
      sentinel_texts strip_lower_idem)

lemma clean_state_idem: "clean_state (clean_state c) = clean_state c"
  by (simp add: clean_state_Some [of "Some x" for x] clean_state_Some [of c] Let_def
      sentinel_texts strip_upper_idem)

subsection \<open>Cleaning row by row\<close>

lemma clean_data_eq:
  "clean_data df = df\<lparr>rows := map (normalize df) (filter survives (rows df))\<rparr>"
proof -
  have "clean_data df = df\<lparr>rows := rows (clean_data df)\<rparr>"
    by (simp add: clean_data_def Let_def)
  then show ?thesis by (simp only: clean_data_rows)
qed

lemma normalize_flags [simp]: "normalize (df\<lparr>rows := rs\<rparr>) = normalize df"
  by (simp add: normalize_def fun_eq_iff)

lemma survives_normalize [simp]: "survives (normalize df r) = survives r"
  by (simp add: survives_def normalize_def extract_year_month_hour_def Let_def)

lemma normalize_fields [simp]:
  "datetime (normalize df r) = datetime r"
  "duration_seconds (normalize df r) = duration_seconds r"
  "latitude (normalize df r) = latitude r"
  "longitude (normalize df r) = longitude r"
  "year (normalize df r) = map_option ts_year (datetime r)"
  "month (normalize df r) = map_option ts_month (datetime r)"
  "hour (normalize df r) = map_option ts_hour (datetime r)"
  "shape (normalize df r) = (if has_shape df then clean_shape (shape r) else shape r)"
  "country (normalize df r) = (if has_country df then clean_country (country r) else country r)"
  "state (normalize df r) = (if has_state df then clean_state (state r) else state r)"
  by (simp_all add: normalize_def extract_year_month_hour_def Let_def)

lemma normalize_idem: "normalize df (normalize df r) = normalize df r"
proof (rule row.equality)
  show "row.more (normalize df (normalize df r)) = row.more (normalize df r)"
    by (simp add: normalize_def extract_year_month_hour_def Let_def)
qed (simp_all add: clean_shape_idem clean_country_idem clean_state_idem)

lemma survives_cases:
  "survives r \<longleftrightarrow>
     (\<exists>t d la lo. datetime r = Some t \<and> duration_seconds r = Some d \<and> latitude r = Some la \<and>
        longitude r = Some lo \<and> 0 < d \<and> d < 604800 \<and> - 90 \<le> la \<and> la \<le> 90 \<and>
        - 180 \<le> lo \<and> lo \<le> 180)"
  by (auto simp: survives_def col_gt_def col_lt_def col_ge_def col_le_def split: option.splits)

lemma survives_not_duration_rejected: "survives r \<Longrightarrow> \<not> duration_rejected r"
  by (auto simp: survives_cases duration_rejected_def)

lemma survives_not_position_rejected: "survives r \<Longrightarrow> \<not> position_rejected r"
  by (auto simp: survives_cases position_rejected_def)

lemma filter_survives_after:
  assumes "\<And>r. survives r \<Longrightarrow> P r"
  shows "filter survives (filter P xs) = filter survives xs"
  using assms by (induction xs) auto

lemma clean_country_text:
  "clean_country (Some s) =
     Some (if strip (lower s) = '''' then ''unknown''
           else if strip (lower s) = ''gb'' then ''uk'' else strip (lower s))"
  by (simp add: clean_country_Some Let_def)

lemma clean_state_text:
  "clean_state (Some s) = Some (if strip (upper s) = '''' then ''UNKNOWN'' else strip (upper s))"
  by (simp add: clean_state_Some Let_def)

subsection \<open>Claims about the cleaner\<close>

text \<open>
  Claim C1.  The claim says that a missing country becomes \<open>unknown\<close> and a missing state
  \<open>UNKNOWN\<close>.  In the program \<^verbatim>\<open>astype(str)\<close> has turned the missing cell into the text
  \<^verbatim>\<open>nan\<close> before \<^verbatim>\<open>fillna\<close> runs, so a sighting with neither country nor state leaves the
  cleaner with country \<open>nan\<close> and state \<open>NAN\<close>.  (For a cell that holds text,
  \<open>clean_country_text\<close> and \<open>clean_state_text\<close> above give the values the claim states.)
\<close>

theorem clean_data_missing_country_state:
  "map country (rows (clean_data (example_frame [example_row\<lparr>country := None, state := None\<rparr>])))
     = [Some ''nan''] \<and>
   map state (rows (clean_data (example_frame [example_row\<lparr>country := None, state := None\<rparr>])))
     = [Some ''NAN'']"
  by code_simp

text \<open>
  Claim C4.  Every row of the clean frame has a duration strictly between 0 and 604800;
  the rows whose parsed duration is at most 0 or at least 604800 contribute nothing to the
  clean frame (removing them from the input leaves the output unchanged, and a frame that
  holds only such a row is cleaned to the empty frame).
\<close>

theorem clean_data_duration_exclusive:
  "(\<forall>r \<in> set (rows (clean_data df)).
      \<exists>d. duration_seconds r = Some d \<and> 0 < d \<and> d < 604800) \<and>
   clean_data (df\<lparr>rows := filter (\<lambda>r. \<not> duration_rejected r) (rows df)\<rparr>) = clean_data df \<and>
   (\<forall>r. duration_rejected r \<longrightarrow> rows (clean_data (df\<lparr>rows := [r]\<rparr>)) = [])"
proof (intro conjI ballI allI impI)
  fix r assume "r \<in> set (rows (clean_data df))"
  then obtain r0 where "survives r0" and "r = normalize df r0"
    by (auto simp: clean_data_rows)
  then show "\<exists>d. duration_seconds r = Some d \<and> 0 < d \<and> d < 604800"
    by (auto simp: survives_cases)
next
  show "clean_data (df\<lparr>rows := filter (\<lambda>r. \<not> duration_rejected r) (rows df)\<rparr>) = clean_data df"
    by (simp del: filter_filter add: clean_data_eq [of "df\<lparr>rows := rs\<rparr>" for rs]
        clean_data_eq [of df] filter_survives_after survives_not_duration_rejected)
next
  fix r assume "duration_rejected r"
  then have "\<not> survives r" using survives_not_duration_rejected by blast
  then show "rows (clean_data (df\<lparr>rows := [r]\<rparr>)) = []"
    by (simp add: clean_data_rows)
qed

theorem clean_data_duration_exclusive_witness:
  "duration_rejected (example_row\<lparr>duration_seconds := Some 0\<rparr>) \<and>
   duration_rejected (example_row\<lparr>duration_seconds := Some 604800\<rparr>) \<and>
   rows (clean_data (example_frame [example_row\<lparr>duration_seconds := Some 0\<rparr>])) = [] \<and>
   rows (clean_data (example_frame [example_row\<lparr>duration_seconds := Some 604800\<rparr>])) = [] \<and>
   map duration_seconds (rows (clean_data (example_frame
      [example_row\<lparr>duration_seconds := Some 0\<rparr>, example_row,
       example_row\<lparr>duration_seconds := Some 604800\<rparr>]))) = [Some 120] \<and>
   clean_data (example_frame [example_row]) =
     clean_data (example_frame [example_row\<lparr>duration_seconds := Some 0\<rparr>, example_row,
       example_row\<lparr>duration_seconds := Some 604800\<rparr>])"
proof -
  let ?z = "example_row\<lparr>duration_seconds := Some 0\<rparr>"
  let ?w = "example_row\<lparr>duration_seconds := Some 604800\<rparr>"
  let ?df = "example_frame [?z, example_row, ?w]"
  have rej: "duration_rejected ?z" "duration_rejected ?w" "\<not> duration_rejected example_row"
    by (simp_all add: duration_rejected_def example_row_def)
  have fr: "example_frame [?z] = (example_frame [example_row])\<lparr>rows := [?z]\<rparr>"
     "example_frame [?w] = (example_frame [example_row])\<lparr>rows := [?w]\<rparr>"
     "example_frame [example_row] = ?df\<lparr>rows := filter (\<lambda>r. \<not> duration_rejected r) (rows ?df)\<rparr>"
    by (simp_all add: example_frame_def rej)
  note inst = clean_data_duration_exclusive [of "example_frame [example_row]"]
    clean_data_duration_exclusive [of ?df]
  have dur: "map duration_seconds (rows (clean_data (example_frame [example_row]))) = [Some 120]"
    by code_simp
  show ?thesis
    using inst rej dur unfolding fr by simp
qed

text \<open>
  Claim C5.  Every row of the clean frame has a latitude in \<open>[-90, 90]\<close> and a longitude in
  \<open>[-180, 180]\<close>; rows outside these ranges contribute nothing to the clean frame; and a row
  that passes the time stamp and duration filters and lies in the closed ranges, the
  boundary values included, is kept with its position.
\<close>

theorem clean_data_position_inclusive:
  "(\<forall>r \<in> set (rows (clean_data df)).
      \<exists>la lo. latitude r = Some la \<and> longitude r = Some lo \<and>
        - 90 \<le> la \<and> la \<le> 90 \<and> - 180 \<le> lo \<and> lo \<le> 180) \<and>
   clean_data (df\<lparr>rows := filter (\<lambda>r. \<not> position_rejected r) (rows df)\<rparr>) = clean_data df \<and>
   (\<forall>r. position_rejected r \<longrightarrow> rows (clean_data (df\<lparr>rows := [r]\<rparr>)) = []) \<and>
   (\<forall>r la lo. datetime r \<noteq> None \<and> col_gt (duration_seconds r) 0 \<and>
      col_lt (duration_seconds r) 604800 \<and> latitude r = Some la \<and> longitude r = Some lo \<and>
      - 90 \<le> la \<and> la \<le> 90 \<and> - 180 \<le> lo \<and> lo \<le> 180 \<longrightarrow>
      map latitude (rows (clean_data (df\<lparr>rows := [r]\<rparr>))) = [Some la] \<and>
      map longitude (rows (clean_data (df\<lparr>rows := [r]\<rparr>))) = [Some lo])"
proof (intro conjI ballI allI impI)
  fix r assume "r \<in> set (rows (clean_data df))"
  then obtain r0 where "survives r0" and "r = normalize df r0"
    by (auto simp: clean_data_rows)
  then show "\<exists>la lo. latitude r = Some la \<and> longitude r = Some lo \<and>
        - 90 \<le> la \<and> la \<le> 90 \<and> - 180 \<le> lo \<and> lo \<le> 180"
    by (auto simp: survives_cases)
next
  show "clean_data (df\<lparr>rows := filter (\<lambda>r. \<not> position_rejected r) (rows df)\<rparr>) = clean_data df"
    by (simp del: filter_filter add: clean_data_eq [of "df\<lparr>rows := rs\<rparr>" for rs]
        clean_data_eq [of df] filter_survives_after survives_not_position_rejected)
next
  fix r assume "position_rejected r"
  then have "\<not> survives r" using survives_not_position_rejected by blast
  then show "rows (clean_data (df\<lparr>rows := [r]\<rparr>)) = []"
    by (simp add: clean_data_rows)
next
  fix r :: row and la lo :: real
  assume a: "datetime r \<noteq> None \<and> col_gt (duration_seconds r) 0 \<and>
      col_lt (duration_seconds r) 604800 \<and> latitude r = Some la \<and> longitude r = Some lo \<and>
      - 90 \<le> la \<and> la \<le> 90 \<and> - 180 \<le> lo \<and> lo \<le> 180"
  then have s: "survives r"
    by (simp add: survives_def col_ge_def col_le_def)
  show "map latitude (rows (clean_data (df\<lparr>rows := [r]\<rparr>))) = [Some la]"
    using a s by (simp add: clean_data_rows)
  show "map longitude (rows (clean_data (df\<lparr>rows := [r]\<rparr>))) = [Some lo]"
    using a s by (simp add: clean_data_rows)
qed

theorem clean_data_position_inclusive_witness:
  "map latitude (rows (clean_data (example_frame
      [example_row\<lparr>latitude := Some 90, longitude := Some (- 180)\<rparr>]))) = [Some 90] \<and>
   map longitude (rows (clean_data (example_frame
      [example_row\<lparr>latitude := Some 90, longitude := Some (- 180)\<rparr>]))) = [Some (- 180)] \<and>
   map latitude (rows (clean_data (example_frame
      [example_row\<lparr>latitude := Some (- 90), longitude := Some 180\<rparr>]))) = [Some (- 90)] \<and>
   map longitude (rows (clean_data (example_frame
      [example_row\<lparr>latitude := Some (- 90), longitude := Some 180\<rparr>]))) = [Some 180] \<and>
   position_rejected (example_row\<lparr>latitude := Some 90.5\<rparr>) \<and>
   rows (clean_data (example_frame [example_row\<lparr>latitude := Some 90.5\<rparr>])) = [] \<and>
   position_rejected (example_row\<lparr>longitude := Some (- 181)\<rparr>) \<and>
   rows (clean_data (example_frame [example_row\<lparr>longitude := Some (- 181)\<rparr>])) = []"
proof -
  let ?a = "example_row\<lparr>latitude := Some 90, longitude := Some (- 180)\<rparr>"
  let ?b = "example_row\<lparr>latitude := Some (- 90), longitude := Some 180\<rparr>"
  let ?c = "example_row\<lparr>latitude := Some 90.5\<rparr>"
  let ?d = "example_row\<lparr>longitude := Some (- 181)\<rparr>"
  have fr: "example_frame rs = (example_frame [])\<lparr>rows := rs\<rparr>" for rs
    by (simp add: example_frame_def)
  have rej: "position_rejected ?c" "position_rejected ?d"
    by (simp_all add: position_rejected_def example_row_def)
  have pre: "datetime ?a \<noteq> None \<and> col_gt (duration_seconds ?a) 0 \<and>
      col_lt (duration_seconds ?a) 604800 \<and> latitude ?a = Some 90 \<and> longitude ?a = Some (- 180)"
    "datetime ?b \<noteq> None \<and> col_gt (duration_seconds ?b) 0 \<and>
      col_lt (duration_seconds ?b) 604800 \<and> latitude ?b = Some (- 90) \<and> longitude ?b = Some 180"
    by (simp_all add: example_row_def col_gt_def col_lt_def)
  note inst = clean_data_position_inclusive [of "example_frame []"]
  have drop: "rows (clean_data ((example_frame [])\<lparr>rows := [?c]\<rparr>)) = []"
    "rows (clean_data ((example_frame [])\<lparr>rows := [?d]\<rparr>)) = []"
    using inst rej by blast+
  have keep_a: "map latitude (rows (clean_data ((example_frame [])\<lparr>rows := [?a]\<rparr>))) = [Some 90] \<and>
      map longitude (rows (clean_data ((example_frame [])\<lparr>rows := [?a]\<rparr>))) = [Some (- 180)]"
    using inst pre(1) by (elim conjE allE [of _ ?a]) (erule allE [of _ 90], erule allE [of _ "- 180"], simp)
  have keep_b: "map latitude (rows (clean_data ((example_frame [])\<lparr>rows := [?b]\<rparr>))) = [Some (- 90)] \<and>
      map longitude (rows (clean_data ((example_frame [])\<lparr>rows := [?b]\<rparr>))) = [Some 180]"
    using inst pre(2) by (elim conjE allE [of _ ?b]) (erule allE [of _ "- 90"], erule allE [of _ 180], simp)
  show ?thesis
    using drop keep_a keep_b rej by (simp add: fr [of "[x]" for x])
qed

text \<open>
  Claim C10.  With a shape column in the frame, a surviving row whose shape text is
  \<^verbatim>\<open>nan\<close> after lowercasing and trimming has the shape \<open>various\<close> in the clean frame.  The
  rows of the clean frame are, position by position, the rows that pass \<open>survives\<close>
  (lemma \<open>clean_data_rows\<close>).
\<close>

theorem clean_data_shape_nan_is_various:
  assumes "has_shape df"
    and "i < length (filter survives (rows df))"
    and "shape (filter survives (rows df) ! i) = Some s"
    and "strip (lower s) = ''nan''"
  shows "length (rows (clean_data df)) = length (filter survives (rows df)) \<and>
         shape (rows (clean_data df) ! i) = Some ''various''"
  using assms by (simp add: clean_data_rows clean_shape_Some)

theorem clean_data_shape_nan_is_various_witness:
  "has_shape (example_frame [example_row\<lparr>shape := Some '' NaN''\<rparr>]) \<and>
   filter survives (rows (example_frame [example_row\<lparr>shape := Some '' NaN''\<rparr>])) =
     [example_row\<lparr>shape := Some '' NaN''\<rparr>] \<and>
   strip (lower '' NaN'') = ''nan'' \<and>
   shape (rows (clean_data (example_frame [example_row\<lparr>shape := Some '' NaN''\<rparr>])) ! 0) =
     Some ''various''"
proof -
  let ?r = "example_row\<lparr>shape := Some '' NaN''\<rparr>"
  have a: "has_shape (example_frame [?r])"
    by (simp add: example_frame_def)
  have b: "filter survives (rows (example_frame [?r])) = [?r]"
    by (simp add: example_frame_def example_row_def survives_def col_gt_def col_lt_def
        col_ge_def col_le_def)
  have c: "strip (lower '' NaN'') = ''nan''"
    by code_simp
  have d: "shape (filter survives (rows (example_frame [?r])) ! 0) = Some '' NaN''"
    by (simp add: b)
  show ?thesis
    using clean_data_shape_nan_is_various [OF a _ d c] a b c by simp
qed

text \<open>
  Claim C6.  Cleaning is idempotent: applying \<open>clean_data\<close> to its own output gives the
  same frame as applying it once.
\<close>

theorem clean_data_idempotent: "clean_data (clean_data df) = clean_data df"
proof -
  have "map (normalize df) (filter survives (map (normalize df) (filter survives (rows df))))
      = map (normalize df) (filter survives (rows df))"
    by (simp add: filter_map comp_def normalize_idem)
  then show ?thesis
    by (simp add: clean_data_eq [of "df\<lparr>rows := rs\<rparr>" for rs] clean_data_eq [of df])
qed

section \<open>Properties of the summary builder\<close>

lemma sum_counts_remdups: "sum_list (map (count_list vs) (remdups vs)) = length vs"
proof -
  have "sum_list (map (count_list vs) (remdups vs)) = sum (count_list vs) (set (remdups vs))"
    by (rule sum_list_distinct_conv_sum_set) simp
  also have "\<dots> = length vs"
    by (simp add: sum_count_set)
  finally show ?thesis .
qed

lemma sum_value_counts: "sum_list (map snd (value_counts col)) = length (present col)"
  by (simp add: value_counts_def comp_def sum_counts_remdups)

lemma sum_insort_key:
  fixes x :: "('k::linorder) \<times> nat"
  shows "sum_list (map snd (insort_key fst x xs)) = snd x + sum_list (map snd xs)"
  by (induction xs) (auto simp: ac_simps)

lemma sum_sort_index:
  fixes kvs :: "(('k::linorder) \<times> nat) list"
  shows "sum_list (map snd (sort_index kvs)) = sum_list (map snd kvs)"
  unfolding sort_index_def by (induction kvs) (auto simp: sum_insort_key)

lemma sum_rename_index: "sum_list (map snd (rename_index m kvs)) = sum_list (map snd kvs)"
  by (simp add: rename_index_def comp_def)

lemma present_all_Some: "\<forall>c \<in> set col. c \<noteq> None \<Longrightarrow> length (present col) = length col"
  by (induction col) (auto simp: present_def)

lemma clean_rows_have_time:
  assumes "r \<in> set (rows (clean_data raw))"
  shows "year r \<noteq> None \<and> month r \<noteq> None \<and> hour r \<noteq> None"
proof -
  from assms obtain r0 where "survives r0" and "r = normalize raw r0"
    by (auto simp: clean_data_rows)
  then show ?thesis by (auto simp: survives_cases)
qed

lemma clean_data_flags [simp]:
  "has_shape (clean_data df) = has_shape df"
  "has_country (clean_data df) = has_country df"
  "has_state (clean_data df) = has_state df"
  by (simp_all add: clean_data_eq)

lemma perform_eda_returns:
  "has_country df \<and> has_state df \<and> has_shape df \<Longrightarrow> \<exists>s. perform_eda df = Inr s"
  by (simp add: perform_eda_def Let_def)

lemma perform_eda_Inr:
  assumes "perform_eda df = Inr s"
  shows "total_sightings s = length (rows df)"
    and "sightings_by_year s = sort_index (value_counts (map year (rows df)))"
    and "sightings_by_month s = rename_index month_map (sort_index (value_counts (map month (rows df))))"
    and "sightings_by_hour s = sort_index (value_counts (map hour (rows df)))"
    and "peak_year_of_reports s = (case idxmax (sightings_by_year s) of None \<Rightarrow> ''N/A'' | Some y \<Rightarrow> str_int y)"
    and "peak_hour_numeric s = idxmax (sightings_by_hour s)"
    and "peak_month s = (case idxmax (sightings_by_month s) of None \<Rightarrow> StrLabel ''N/A'' | Some l \<Rightarrow> l)"
  using assms by (auto simp: perform_eda_def Let_def split: if_splits)

lemma idxmax_sorted:
  fixes kvs :: "(('k::linorder) \<times> nat) list"
  assumes ne: "kvs \<noteq> []" and srt: "sorted (map fst kvs)"
  shows "\<exists>k c. idxmax kvs = Some k \<and> (k, c) \<in> set kvs \<and>
           (\<forall>kv \<in> set kvs. snd kv \<le> c \<and> (snd kv = c \<longrightarrow> k \<le> fst kv))"
proof -
  let ?M = "Max (set (map snd kvs))"
  let ?P = "\<lambda>kv. snd kv = ?M"
  have fin: "finite (set (map snd kvs))" and nonempty: "set (map snd kvs) \<noteq> {}"
    using ne by auto
  have "?M \<in> set (map snd kvs)"
    using Max_in [OF fin nonempty] .
  then obtain x where "x \<in> set kvs" and "?P x" by auto
  then have "find ?P kvs \<noteq> None"
    unfolding find_None_iff by blast
  then obtain y where y: "find ?P kvs = Some y" by auto
  then obtain i where i: "i < length kvs" "?P (kvs ! i)" "y = kvs ! i" "\<forall>j<i. \<not> ?P (kvs ! j)"
    unfolding find_Some_iff by blast
  have idx: "idxmax kvs = Some (fst y)"
    using ne y by (cases kvs) (simp_all add: idxmax_def)
  have mem: "(fst y, ?M) \<in> set kvs"
    using i by (metis nth_mem prod.collapse)
  have le: "snd kv \<le> ?M" if "kv \<in> set kvs" for kv
    using that fin by (auto intro: Max_ge)
  have first: "fst y \<le> fst kv" if kv: "kv \<in> set kvs" and eq: "snd kv = ?M" for kv
  proof -
    from kv obtain j where j: "j < length kvs" "kvs ! j = kv"
      by (auto simp: in_set_conv_nth)
    with eq i(4) have "\<not> j < i" by auto
    then have "i \<le> j" by simp
    with srt j(1) have "map fst kvs ! i \<le> map fst kvs ! j"
      using sorted_nth_mono [of "map fst kvs" i j] by simp
    with i j show ?thesis by simp
  qed
  show ?thesis
    using idx mem le first by blast
qed

lemma sorted_sort_index:
  fixes kvs :: "(('k::linorder) \<times> nat) list"
  shows "sorted (map fst (sort_index kvs))"
  by (simp add: sort_index_def)

lemma sort_index_empty:
  fixes kvs :: "(('k::linorder) \<times> nat) list"
  shows "sort_index kvs = [] \<longleftrightarrow> kvs = []"
  by (metis length_sort list.size(3) length_0_conv sort_index_def)

lemma value_counts_empty: "value_counts col = [] \<longleftrightarrow> present col = []"
  by (simp add: value_counts_def)

lemma find_map_list: "find P (map f xs) = map_option f (find (\<lambda>x. P (f x)) xs)"
  by (induction xs) auto

lemma idxmax_rename_index:
  "idxmax (rename_index m kvs) = map_option (rename_label m) (idxmax kvs)"
proof (cases kvs)
  case Nil
  then show ?thesis by (simp add: idxmax_def rename_index_def)
next
  case (Cons a list)
  have snd: "map snd (rename_index m kvs) = map snd kvs"
    by (simp add: rename_index_def comp_def)
  have "idxmax (rename_index m kvs) =
      map_option fst (find (\<lambda>kv. snd kv = Max (set (map snd kvs))) (rename_index m kvs))"
    using Cons by (simp add: idxmax_def snd [symmetric]) (simp add: rename_index_def)
  also have "\<dots> = map_option (rename_label m) (map_option fst
      (find (\<lambda>kv. snd kv = Max (set (map snd kvs))) kvs))"
    by (simp add: rename_index_def find_map_list comp_def option.map_comp)
  also have "\<dots> = map_option (rename_label m) (idxmax kvs)"
    using Cons by (simp add: idxmax_def)
  finally show ?thesis .
qed

lemma sort_index_value_counts_nonempty:
  fixes col :: "('k::linorder) option list"
  assumes "\<forall>c \<in> set col. c \<noteq> None" and "col \<noteq> []"
  shows "sort_index (value_counts col) \<noteq> []"
proof -
  have "length (present col) = length col"
    using assms(1) by (rule present_all_Some)
  with assms(2) have "present col \<noteq> []" by auto
  then show ?thesis by (simp add: sort_index_empty value_counts_empty)
qed

lemma sort_index_value_counts_set:
  fixes col :: "('k::linorder) option list"
  shows "(k, c) \<in> set (sort_index (value_counts col)) \<longleftrightarrow>
         k \<in> set (present col) \<and> c = count_list (present col) k"
  by (auto simp: sort_index_def value_counts_def)

lemma example_sightings_flags:
  "has_country example_sightings \<and> has_state example_sightings \<and> has_shape example_sightings"
  by (simp add: example_sightings_def example_frame_def)

lemma example_sightings_clean: "length (rows (clean_data example_sightings)) = 4"
  by code_simp

lemma example_sightings_summary:
  "perform_eda (clean_data example_sightings) =
     Inr \<lparr>total_sightings = 4,
          median_duration_seconds_overall = Some 360,
          peak_month = StrLabel ''Jun'',
          peak_hour_readable = ''3:00 - 4:00'',
          peak_hour_numeric = Some 3,
          peak_year_of_reports = ''1999'',
          median_duration_night_seconds = Some 360,
          median_duration_day_seconds = None,
          proportion_over_5_min_percent = 50,
          proportion_over_1_hour_percent = 0,
          sightings_by_year = [(1999, 2), (2004, 2)],
          sightings_by_month = [(StrLabel ''Jun'', 2), (StrLabel ''Oct'', 2)],
          sightings_by_hour = [(3, 2), (20, 2)]\<rparr>"
  by code_simp

text \<open>
  Claim C9.  For the summary of a clean frame, the counts of each of the three groupings
  (\<open>sightings_by_year\<close>, \<open>sightings_by_month\<close>, \<open>sightings_by_hour\<close>) add up to
  \<open>total_sightings\<close>.  A summary is returned whenever the frame has the three optional
  columns that \<^verbatim>\<open>perform_eda\<close> reads.
\<close>

theorem perform_eda_counts_sum:
  "(has_country raw \<and> has_state raw \<and> has_shape raw \<longrightarrow>
      (\<exists>s. perform_eda (clean_data raw) = Inr s)) \<and>
   (\<forall>s. perform_eda (clean_data raw) = Inr s \<longrightarrow>
      sum_list (map snd (sightings_by_year s)) = total_sightings s \<and>
      sum_list (map snd (sightings_by_month s)) = total_sightings s \<and>
      sum_list (map snd (sightings_by_hour s)) = total_sightings s)"
proof (intro conjI allI impI)
  assume "has_country raw \<and> has_state raw \<and> has_shape raw"
  then show "\<exists>s. perform_eda (clean_data raw) = Inr s"
    by (simp add: perform_eda_returns)
next
  fix s assume s: "perform_eda (clean_data raw) = Inr s"
  let ?rs = "rows (clean_data raw)"
  have y: "length (present (map year ?rs)) = length ?rs"
    using clean_rows_have_time [of _ raw] present_all_Some [of "map year ?rs"] by auto
  have m: "length (present (map month ?rs)) = length ?rs"
    using clean_rows_have_time [of _ raw] present_all_Some [of "map month ?rs"] by auto
  have h: "length (present (map hour ?rs)) = length ?rs"
    using clean_rows_have_time [of _ raw] present_all_Some [of "map hour ?rs"] by auto
  show "sum_list (map snd (sightings_by_year s)) = total_sightings s"
    by (simp add: perform_eda_Inr [OF s] sum_sort_index sum_value_counts y)
  show "sum_list (map snd (sightings_by_month s)) = total_sightings s"
    by (simp add: perform_eda_Inr [OF s] sum_rename_index sum_sort_index sum_value_counts m)
  show "sum_list (map snd (sightings_by_hour s)) = total_sightings s"
    by (simp add: perform_eda_Inr [OF s] sum_sort_index sum_value_counts h)
qed

theorem perform_eda_counts_sum_witness:
  "has_country example_sightings \<and> has_state example_sightings \<and> has_shape example_sightings \<and>
   sightings_by_year (projr (perform_eda (clean_data example_sightings))) = [(1999, 2), (2004, 2)] \<and>
   total_sightings (projr (perform_eda (clean_data example_sightings))) = 4 \<and>
   sum_list (map snd (sightings_by_year (projr (perform_eda (clean_data example_sightings))))) = 4 \<and>
   sum_list (map snd (sightings_by_month (projr (perform_eda (clean_data example_sightings))))) = 4 \<and>
   sum_list (map snd (sightings_by_hour (projr (perform_eda (clean_data example_sightings))))) = 4"
proof -
  let ?s = "projr (perform_eda (clean_data example_sightings))"
  from perform_eda_counts_sum [of example_sightings] example_sightings_flags
  obtain s where s: "perform_eda (clean_data example_sightings) = Inr s"
    by blast
  with perform_eda_counts_sum [of example_sightings]
  have sums: "sum_list (map snd (sightings_by_year s)) = total_sightings s"
    "sum_list (map snd (sightings_by_month s)) = total_sightings s"
    "sum_list (map snd (sightings_by_hour s)) = total_sightings s"
    by blast+
  have s_eq: "?s = s" by (simp add: s)
  have total: "total_sightings ?s = 4" and years: "sightings_by_year ?s = [(1999, 2), (2004, 2)]"
    by (simp_all add: example_sightings_summary)
  show ?thesis
    using example_sightings_flags sums total years unfolding s_eq by simp
qed

text \<open>
  Claim C3.  For the summary of a non-empty clean frame, each of \<open>peak_year_of_reports\<close>,
  \<open>peak_hour_numeric\<close> and \<open>peak_month\<close> names a category of its grouping whose count is the
  largest of the grouping, and among the categories with that count it is the one with the
  smallest key (the year is given as its decimal text, the month as the label that
  \<^verbatim>\<open>month_map\<close> gives to the month number).  By \<open>sort_index_value_counts_set\<close> the count of
  a category is the number of rows that carry it.
\<close>

theorem perform_eda_peaks:
  "(has_country raw \<and> has_state raw \<and> has_shape raw \<longrightarrow>
      (\<exists>s. perform_eda (clean_data raw) = Inr s)) \<and>
   (\<forall>s. rows (clean_data raw) \<noteq> [] \<and> perform_eda (clean_data raw) = Inr s \<longrightarrow>
      (\<exists>y c. peak_year_of_reports s = str_int y \<and> (y, c) \<in> set (sightings_by_year s) \<and>
         (\<forall>kv \<in> set (sightings_by_year s). snd kv \<le> c \<and> (snd kv = c \<longrightarrow> y \<le> fst kv))) \<and>
      (\<exists>h c. peak_hour_numeric s = Some h \<and> (h, c) \<in> set (sightings_by_hour s) \<and>
         (\<forall>kv \<in> set (sightings_by_hour s). snd kv \<le> c \<and> (snd kv = c \<longrightarrow> h \<le> fst kv))) \<and>
      (\<exists>m c. peak_month s = rename_label month_map m \<and>
         sightings_by_month s =
           rename_index month_map (sort_index (value_counts (map month (rows (clean_data raw))))) \<and>
         (m, c) \<in> set (sort_index (value_counts (map month (rows (clean_data raw))))) \<and>
         (\<forall>kv \<in> set (sort_index (value_counts (map month (rows (clean_data raw))))).
            snd kv \<le> c \<and> (snd kv = c \<longrightarrow> m \<le> fst kv))))"
proof (intro conjI allI impI)
  assume "has_country raw \<and> has_state raw \<and> has_shape raw"
  then show "\<exists>s. perform_eda (clean_data raw) = Inr s"
    by (simp add: perform_eda_returns)
next
  fix s assume a: "rows (clean_data raw) \<noteq> [] \<and> perform_eda (clean_data raw) = Inr s"
  let ?rs = "rows (clean_data raw)"
  note eda = perform_eda_Inr [of "clean_data raw" s]
  have some: "\<forall>c \<in> set (map year ?rs). c \<noteq> None" "\<forall>c \<in> set (map month ?rs). c \<noteq> None"
    "\<forall>c \<in> set (map hour ?rs). c \<noteq> None"
    using clean_rows_have_time [of _ raw] by auto
  have ne: "sort_index (value_counts (map year ?rs)) \<noteq> []"
    "sort_index (value_counts (map month ?rs)) \<noteq> []"
    "sort_index (value_counts (map hour ?rs)) \<noteq> []"
    using a some by (simp_all add: sort_index_value_counts_nonempty)
  from idxmax_sorted [OF ne(1) sorted_sort_index]
  show "\<exists>y c. peak_year_of_reports s = str_int y \<and> (y, c) \<in> set (sightings_by_year s) \<and>
         (\<forall>kv \<in> set (sightings_by_year s). snd kv \<le> c \<and> (snd kv = c \<longrightarrow> y \<le> fst kv))"
    using a by (auto simp: eda)
  from idxmax_sorted [OF ne(3) sorted_sort_index]
  show "\<exists>h c. peak_hour_numeric s = Some h \<and> (h, c) \<in> set (sightings_by_hour s) \<and>
         (\<forall>kv \<in> set (sightings_by_hour s). snd kv \<le> c \<and> (snd kv = c \<longrightarrow> h \<le> fst kv))"
    using a by (auto simp: eda)
  from idxmax_sorted [OF ne(2) sorted_sort_index]
  show "\<exists>m c. peak_month s = rename_label month_map m \<and>
         sightings_by_month s =
           rename_index month_map (sort_index (value_counts (map month ?rs))) \<and>
         (m, c) \<in> set (sort_index (value_counts (map month ?rs))) \<and>
         (\<forall>kv \<in> set (sort_index (value_counts (map month ?rs))).
            snd kv \<le> c \<and> (snd kv = c \<longrightarrow> m \<le> fst kv))"
    using a by (auto simp: eda idxmax_rename_index)
qed

theorem perform_eda_peaks_witness:
  "has_country example_sightings \<and> has_state example_sightings \<and> has_shape example_sightings \<and>
   rows (clean_data example_sightings) \<noteq> [] \<and>
   sightings_by_year (projr (perform_eda (clean_data example_sightings))) = [(1999, 2), (2004, 2)] \<and>
   peak_year_of_reports (projr (perform_eda (clean_data example_sightings))) = str_int 1999 \<and>
   sightings_by_hour (projr (perform_eda (clean_data example_sightings))) = [(3, 2), (20, 2)] \<and>
   peak_hour_numeric (projr (perform_eda (clean_data example_sightings))) = Some 3 \<and>
   sightings_by_month (projr (perform_eda (clean_data example_sightings))) =
     [(StrLabel ''Jun'', 2), (StrLabel ''Oct'', 2)] \<and>
   peak_month (projr (perform_eda (clean_data example_sightings))) = rename_label month_map 6"
proof -
  let ?s = "projr (perform_eda (clean_data example_sightings))"
  have ne: "rows (clean_data example_sightings) \<noteq> []"
    using example_sightings_clean by auto
  have s: "perform_eda (clean_data example_sightings) = Inr ?s"
    by (simp add: example_sightings_summary)
  have by_year: "sightings_by_year ?s = [(1999, 2), (2004, 2)]"
    and by_hour: "sightings_by_hour ?s = [(3, 2), (20, 2)]"
    and by_month: "sightings_by_month ?s = [(StrLabel ''Jun'', 2), (StrLabel ''Oct'', 2)]"
    by (simp_all add: example_sightings_summary)
  have months: "sort_index (value_counts (map month (rows (clean_data example_sightings)))) =
      [(6, 2), (10, 2)]"
    by code_simp
  from perform_eda_peaks [of example_sightings] ne s
  have peaks:
    "\<exists>y c. peak_year_of_reports ?s = str_int y \<and> (y, c) \<in> set (sightings_by_year ?s) \<and>
       (\<forall>kv \<in> set (sightings_by_year ?s). snd kv \<le> c \<and> (snd kv = c \<longrightarrow> y \<le> fst kv))"
    "\<exists>h c. peak_hour_numeric ?s = Some h \<and> (h, c) \<in> set (sightings_by_hour ?s) \<and>
       (\<forall>kv \<in> set (sightings_by_hour ?s). snd kv \<le> c \<and> (snd kv = c \<longrightarrow> h \<le> fst kv))"
    "\<exists>m c. peak_month ?s = rename_label month_map m \<and>
       (m, c) \<in> set (sort_index (value_counts (map month (rows (clean_data example_sightings))))) \<and>
       (\<forall>kv \<in> set (sort_index (value_counts (map month (rows (clean_data example_sightings))))).
          snd kv \<le> c \<and> (snd kv = c \<longrightarrow> m \<le> fst kv))"
    by blast+
  have y: "peak_year_of_reports ?s = str_int 1999"
    using peaks(1) unfolding by_year by auto
  have h: "peak_hour_numeric ?s = Some 3"
    using peaks(2) unfolding by_hour by auto
  have m: "peak_month ?s = rename_label month_map 6"
    using peaks(3) unfolding months by auto
  show ?thesis
    using example_sightings_flags ne by_year by_hour by_month y h m by simp
qed

section \<open>Properties of the globe exporter\<close>

lemma ln_day_pos: "0 < ln (3600 * 24 :: real)"
  by simp

lemma magnitude_column_length [simp]: "length (magnitude_column rs) = length rs"
  by (simp add: magnitude_column_def Let_def)

lemma globe_length: "length (export_globe_data pick df) = length (globe_rows pick df)"
  by (auto simp: export_globe_data_def Let_def globe_rows_def)

lemma export_globe_data_nth:
  assumes "i < length (globe_rows pick df)"
  shows "export_globe_data pick df ! i =
           globe_point_of (globe_rows pick df ! i) (magnitude_column (globe_rows pick df) ! i)"
proof -
  from assms have "globe_rows pick df \<noteq> []" by auto
  then have "rows df \<noteq> []"
    by (auto simp: globe_rows_def df_sample_def MAX_POINTS_ON_GLOBE_def split: if_splits)
  then show ?thesis
    using assms by (simp add: export_globe_data_def Let_def)
qed

lemma log_scale_range: "0 \<le> log_scale d \<and> log_scale d \<le> 1"
proof -
  let ?x = "min (max d 1) 86400"
  have x: "1 \<le> ?x" "?x \<le> 86400" by auto
  then have "0 \<le> ln ?x" by simp
  moreover have "ln ?x \<le> ln 86400" using x by (subst ln_le_cancel_iff) auto
  moreover have "0 < ln (86400 :: real)" by simp
  ultimately show ?thesis by (simp add: log_scale_def)
qed

lemma magnitude_column_nth:
  assumes "i < length rs" and "duration_seconds (rs ! i) = Some d"
  shows "magnitude_column rs ! i = Some (3 / 100 + log_scale d * (25 / 100))"
proof -
  have "rs ! i \<in> set rs" using assms(1) by simp
  then have "Some d \<in> duration_seconds ` set rs"
    using assms(2) by (metis image_eqI)
  then have "Some d \<in> set (dropna (map duration_seconds rs))"
    by (simp add: dropna_def)
  then have ne: "dropna (map duration_seconds rs) \<noteq> []" by auto
  have clamp: "min (max (max d (1 / 1000000)) 1) 86400 = min (max d 1) 86400"
    by auto
  show ?thesis
    using assms ne
    by (simp add: magnitude_column_def Let_def fillna_def clip_def clip_lower_def log_scale_def clamp)
qed

lemma magnitude_column_range:
  assumes "i < length rs"
  shows "\<exists>m. magnitude_column rs ! i = Some m \<and> 3 / 100 \<le> m \<and> m \<le> 28 / 100"
proof (cases "duration_seconds (rs ! i)")
  case None
  then have "magnitude_column rs ! i = Some (3 / 100)"
    using assms
    by (simp add: magnitude_column_def Let_def fillna_def clip_def clip_lower_def)
  moreover have "(3 / 100 :: real) \<le> 3 / 100 \<and> (3 / 100 :: real) \<le> 28 / 100" by simp
  ultimately show ?thesis by blast
next
  case (Some d)
  have "0 \<le> log_scale d * (25 / 100)" "log_scale d * (25 / 100) \<le> 25 / 100"
    using log_scale_range [of d] by auto
  then show ?thesis
    using magnitude_column_nth [OF assms Some] by auto
qed

lemma export_globe_data_positions:
  "map lat (export_globe_data pick df) = map latitude (globe_rows pick df) \<and>
   map lng (export_globe_data pick df) = map longitude (globe_rows pick df)"
proof -
  have "map lat (map2 globe_point_of rs ms) = map latitude rs \<and>
        map lng (map2 globe_point_of rs ms) = map longitude rs" if "length ms = length rs" for rs ms
    using that by (induction rs ms rule: list_induct2') (auto simp: globe_point_of_def)
  then show ?thesis
    by (auto simp: export_globe_data_def Let_def globe_rows_def)
qed

subsection \<open>The library's sampler\<close>

lemma random_interval_le: "fst (random_interval lib st mx) \<le> mx"
  by (simp add: random_interval_def Let_def split: prod.split)

lemma shuffle_raw_perm:
  "k < length xs \<or> k = 0 \<Longrightarrow>
     length (shuffle_raw lib k st xs) = length xs \<and>
     set (shuffle_raw lib k st xs) = set xs \<and>
     distinct (shuffle_raw lib k st xs) = distinct xs"
proof (induction k arbitrary: st xs)
  case 0
  then show ?case by simp
next
  case (Suc k)
  obtain j st' where r: "random_interval lib st (Suc k) = (j, st')"
    by (cases "random_interval lib st (Suc k)")
  have j: "j \<le> Suc k" using random_interval_le [of lib st "Suc k"] by (simp add: r)
  from Suc.prems have k: "Suc k < length xs" by simp
  let ?ys = "xs[j := xs ! Suc k, Suc k := xs ! j]"
  have len: "length ?ys = length xs" by simp
  have st: "set ?ys = set xs" using k j by (simp add: set_swap)
  have ds: "distinct ?ys = distinct xs" using k j by (simp add: distinct_swap)
  have "k < length ?ys \<or> k = 0" using k by simp
  from Suc.IH [OF this, of st'] show ?case
    by (simp add: r len st ds Let_def)
qed

lemma permutation_props:
  "length (permutation lib st n) = n \<and> set (permutation lib st n) = {0..<n} \<and>
   distinct (permutation lib st n)"
proof -
  have "n - 1 < length [0..<n] \<or> n - 1 = 0" by auto
  from shuffle_raw_perm [OF this, of lib st] show ?thesis
    by (simp add: permutation_def)
qed

lemma choice_props:
  assumes "n \<le> pop_size"
  shows "length (choice lib st pop_size n) = n"
    and "distinct (choice lib st pop_size n)"
    and "\<forall>i \<in> set (choice lib st pop_size n). i < pop_size"
proof -
  show "length (choice lib st pop_size n) = n"
    using assms by (simp add: choice_def permutation_props)
  show "distinct (choice lib st pop_size n)"
    by (simp add: choice_def permutation_props)
  have "set (choice lib st pop_size n) \<subseteq> {0..<pop_size}"
    using set_take_subset [of n "permutation lib st pop_size"]
    by (simp add: choice_def permutation_props)
  then show "\<forall>i \<in> set (choice lib st pop_size n). i < pop_size" by auto
qed

lemma random_interval_entropy:
  "random_interval (lib\<lparr>entropy_state := e\<rparr>) st mx = random_interval lib st mx"
  by (simp add: random_interval_def)

lemma shuffle_raw_entropy:
  "shuffle_raw (lib\<lparr>entropy_state := e\<rparr>) k st xs = shuffle_raw lib k st xs"
proof (induction k arbitrary: st xs)
  case 0
  show ?case by simp
next
  case (Suc k)
  show ?case
    by (simp only: shuffle_raw.simps random_interval_entropy Suc.IH)
qed

lemma sample_random_state_42_entropy:
  "sample_random_state_42 (lib\<lparr>entropy_state := e\<rparr>) = sample_random_state_42 lib"
  by (simp add: fun_eq_iff sample_random_state_42_def choice_def permutation_def
      RandomState_def shuffle_raw_entropy)

lemma example_generator_sample:
  "sample_random_state_42 example_generator 8 5 = [2, 6, 0, 1, 4]"
  by code_simp

text \<open>
  Claim C7.  A frame of at most 10000 rows is exported with one point for each row, in
  order.  A larger frame is exported with exactly 10000 points: the points of the rows at
  the positions that \<^verbatim>\<open>sample(n=MAX_POINTS_ON_GLOBE, random_state=42)\<close> picks, which are
  10000 different positions of the frame (a sample without replacement), whatever the
  generator draws.  The export is the same in every run: it does not depend on the state
  of an unseeded generator, the only part of the generator that changes between runs.
\<close>

theorem export_globe_data_sample:
  "(length (rows df) \<le> MAX_POINTS_ON_GLOBE \<longrightarrow>
      length (export_globe_data pick df) = length (rows df) \<and>
      map lat (export_globe_data pick df) = map latitude (rows df) \<and>
      map lng (export_globe_data pick df) = map longitude (rows df)) \<and>
   (MAX_POINTS_ON_GLOBE < length (rows df) \<longrightarrow>
      length (export_globe_data (sample_random_state_42 lib) df) = 10000 \<and>
      length (sample_random_state_42 lib (length (rows df)) MAX_POINTS_ON_GLOBE) = 10000 \<and>
      distinct (sample_random_state_42 lib (length (rows df)) MAX_POINTS_ON_GLOBE) \<and>
      (\<forall>i \<in> set (sample_random_state_42 lib (length (rows df)) MAX_POINTS_ON_GLOBE).
         i < length (rows df)) \<and>
      map lat (export_globe_data (sample_random_state_42 lib) df) =
        map (\<lambda>i. latitude (rows df ! i))
          (sample_random_state_42 lib (length (rows df)) MAX_POINTS_ON_GLOBE) \<and>
      map lng (export_globe_data (sample_random_state_42 lib) df) =
        map (\<lambda>i. longitude (rows df ! i))
          (sample_random_state_42 lib (length (rows df)) MAX_POINTS_ON_GLOBE)) \<and>
   export_globe_data (sample_random_state_42 (lib\<lparr>entropy_state := e\<rparr>)) df =
     export_globe_data (sample_random_state_42 lib) df"
proof (intro conjI impI)
  assume "length (rows df) \<le> MAX_POINTS_ON_GLOBE"
  then have g: "globe_rows pick df = rows df" by (simp add: globe_rows_def)
  show "length (export_globe_data pick df) = length (rows df)"
    by (simp add: globe_length g)
  show "map lat (export_globe_data pick df) = map latitude (rows df)"
    "map lng (export_globe_data pick df) = map longitude (rows df)"
    using export_globe_data_positions [of pick df] by (simp_all add: g)
next
  let ?ps = "sample_random_state_42 lib (length (rows df)) MAX_POINTS_ON_GLOBE"
  assume big: "MAX_POINTS_ON_GLOBE < length (rows df)"
  then have le: "MAX_POINTS_ON_GLOBE \<le> length (rows df)" by simp
  have g: "globe_rows (sample_random_state_42 lib) df = map (\<lambda>i. rows df ! i) ?ps"
    using big by (simp add: globe_rows_def df_sample_def)
  show len: "length ?ps = 10000"
    using choice_props(1) [OF le] by (simp add: sample_random_state_42_def MAX_POINTS_ON_GLOBE_def)
  show "distinct ?ps"
    using choice_props(2) [OF le] by (simp add: sample_random_state_42_def)
  show "\<forall>i \<in> set ?ps. i < length (rows df)"
    using choice_props(3) [OF le] by (simp add: sample_random_state_42_def)
  show "length (export_globe_data (sample_random_state_42 lib) df) = 10000"
    by (simp add: globe_length g len)
  show "map lat (export_globe_data (sample_random_state_42 lib) df) =
      map (\<lambda>i. latitude (rows df ! i)) ?ps"
    "map lng (export_globe_data (sample_random_state_42 lib) df) =
      map (\<lambda>i. longitude (rows df ! i)) ?ps"
    using export_globe_data_positions [of "sample_random_state_42 lib" df]
    by (simp_all add: g comp_def)
next
  show "export_globe_data (sample_random_state_42 (lib\<lparr>entropy_state := e\<rparr>)) df =
     export_globe_data (sample_random_state_42 lib) df"
    by (simp only: sample_random_state_42_entropy)
qed

theorem export_globe_data_sample_witness:
  "length (rows (example_frame (replicate 15000 example_row))) = 15000 \<and>
   length (export_globe_data (sample_random_state_42 example_generator)
     (example_frame (replicate 15000 example_row))) = 10000 \<and>
   length (sample_random_state_42 example_generator 15000 MAX_POINTS_ON_GLOBE) = 10000 \<and>
   distinct (sample_random_state_42 example_generator 15000 MAX_POINTS_ON_GLOBE) \<and>
   length (rows (example_frame (replicate 500 example_row))) = 500 \<and>
   length (export_globe_data (sample_random_state_42 example_generator)
     (example_frame (replicate 500 example_row))) = 500"
proof -
  let ?big = "example_frame (replicate 15000 example_row)"
  let ?small = "example_frame (replicate 500 example_row)"
  have nb: "length (rows ?big) = 15000" and ns: "length (rows ?small) = 500"
    by (simp_all add: example_frame_def)
  have hb: "MAX_POINTS_ON_GLOBE < length (rows ?big)"
    and hs: "length (rows ?small) \<le> MAX_POINTS_ON_GLOBE"
    by (simp_all add: nb ns MAX_POINTS_ON_GLOBE_def)
  note big =
    export_globe_data_sample [where df = "?big" and lib = example_generator,
      THEN conjunct2, THEN conjunct1, THEN mp, OF hb]
  note small =
    export_globe_data_sample [where df = "?small"
      and pick = "sample_random_state_42 example_generator",
      THEN conjunct1, THEN mp, OF hs]
  have b: "length (export_globe_data (sample_random_state_42 example_generator) ?big) = 10000"
    "length (sample_random_state_42 example_generator (length (rows ?big)) MAX_POINTS_ON_GLOBE) = 10000"
    "distinct (sample_random_state_42 example_generator (length (rows ?big)) MAX_POINTS_ON_GLOBE)"
    using big [THEN conjunct1] big [THEN conjunct2, THEN conjunct1]
      big [THEN conjunct2, THEN conjunct2, THEN conjunct1] by this+
  have s: "length (export_globe_data (sample_random_state_42 example_generator) ?small) =
      length (rows ?small)"
    using small [THEN conjunct1] .
  show ?thesis using b s unfolding nb ns by (intro conjI) (rule refl | assumption)+
qed

text \<open>
  Claim C8.  For every exported row with duration \<open>d\<close>, the scale \<open>t = log_scale d\<close> lies in
  \<open>[0, 1]\<close>, the magnitude is \<open>0.03 + t * 0.25\<close> and lies in \<open>[0.03, 0.28]\<close>, and the radius
  of the point is the larger of \<open>0.01\<close> and the magnitude; every exported point has a radius
  of at least \<open>0.01\<close>.
\<close>

theorem export_globe_data_radius:
  "(\<forall>i d. i < length (globe_rows pick df) \<and> duration_seconds (globe_rows pick df ! i) = Some d \<longrightarrow>
      0 \<le> log_scale d \<and> log_scale d \<le> 1 \<and>
      magnitude_column (globe_rows pick df) ! i = Some (3 / 100 + log_scale d * (25 / 100)) \<and>
      3 / 100 \<le> 3 / 100 + log_scale d * (25 / 100) \<and>
      3 / 100 + log_scale d * (25 / 100) \<le> 28 / 100 \<and>
      radius (export_globe_data pick df ! i) = max (1 / 100) (3 / 100 + log_scale d * (25 / 100))) \<and>
   (\<forall>p \<in> set (export_globe_data pick df). 1 / 100 \<le> radius p \<and> radius p \<le> 28 / 100)"
proof (intro conjI allI impI ballI)
  fix i d
  assume a: "i < length (globe_rows pick df) \<and> duration_seconds (globe_rows pick df ! i) = Some d"
  then have i: "i < length (globe_rows pick df)"
    and d: "duration_seconds (globe_rows pick df ! i) = Some d" by auto
  show "0 \<le> log_scale d" "log_scale d \<le> 1"
    using log_scale_range [of d] by auto
  then show "3 / 100 \<le> 3 / 100 + log_scale d * (25 / 100)"
    "3 / 100 + log_scale d * (25 / 100) \<le> 28 / 100"
    by auto
  show m: "magnitude_column (globe_rows pick df) ! i = Some (3 / 100 + log_scale d * (25 / 100))"
    using magnitude_column_nth [OF i d] .
  show "radius (export_globe_data pick df ! i) = max (1 / 100) (3 / 100 + log_scale d * (25 / 100))"
    by (simp add: export_globe_data_nth [OF i] m globe_point_of_def py_max_def max_def)
next
  fix p assume "p \<in> set (export_globe_data pick df)"
  then obtain i where i: "i < length (export_globe_data pick df)" and p: "p = export_globe_data pick df ! i"
    by (auto simp: in_set_conv_nth)
  then have i': "i < length (globe_rows pick df)" by (simp add: globe_length)
  from magnitude_column_range [OF i'] obtain m where
    m: "magnitude_column (globe_rows pick df) ! i = Some m" "3 / 100 \<le> m" "m \<le> 28 / 100"
    by blast
  have "radius p = (if 1 / 100 < m then m else 1 / 100)"
    by (simp add: p export_globe_data_nth [OF i'] m(1) globe_point_of_def py_max_def)
  with m show "1 / 100 \<le> radius p" "radius p \<le> 28 / 100" by auto
qed

theorem export_globe_data_radius_witness:
  "globe_rows first_positions (example_frame [example_row\<lparr>duration_seconds := Some 1\<rparr>, example_row\<lparr>duration_seconds := Some 86400\<rparr>]) =
     [example_row\<lparr>duration_seconds := Some 1\<rparr>, example_row\<lparr>duration_seconds := Some 86400\<rparr>] \<and>
   log_scale 1 = 0 \<and> log_scale 86400 = 1 \<and>
   map radius (export_globe_data first_positions
     (example_frame [example_row\<lparr>duration_seconds := Some 1\<rparr>, example_row\<lparr>duration_seconds := Some 86400\<rparr>])) = [3 / 100, 28 / 100]"
proof -
  let ?a = "example_row\<lparr>duration_seconds := Some 1\<rparr>"
  let ?b = "example_row\<lparr>duration_seconds := Some 86400\<rparr>"
  let ?F = "example_frame [?a, ?b]"
  have g: "globe_rows first_positions ?F = [?a, ?b]"
    by (simp add: globe_rows_def example_frame_def MAX_POINTS_ON_GLOBE_def)
  have t: "log_scale 1 = 0" "log_scale 86400 = 1"
    by (simp_all add: log_scale_def)
  have len: "length (export_globe_data first_positions ?F) = 2"
    by (simp add: globe_length g)
  note inst = export_globe_data_radius [of first_positions ?F]
  have r0: "radius (export_globe_data first_positions ?F ! 0) = 3 / 100"
    using inst [THEN conjunct1, rule_format, of 0 1] by (simp add: g t)
  have r1: "radius (export_globe_data first_positions ?F ! 1) = 28 / 100"
    using inst [THEN conjunct1, rule_format, of 1 86400] by (simp add: g t)
  have "map radius (export_globe_data first_positions ?F) = [3 / 100, 28 / 100]"
    using len r0 r1 by (auto simp: list_eq_iff_nth_eq less_Suc_eq numeral_2_eq_2)
  then show ?thesis using g t by simp
qed

section \<open>Properties of the main block\<close>

lemma export_globe_data_empty: "rows df = [] \<Longrightarrow> export_globe_data pick df = []"
  by (simp add: export_globe_data_def)

lemma clean_data_empty: "rows df = [] \<Longrightarrow> rows (clean_data df) = []"
  by (simp add: clean_data_rows)

lemma perform_eda_empty:
  assumes "rows df = []" and "has_country df" and "has_state df" and "has_shape df"
  shows "\<exists>s. perform_eda df = Inr s \<and> total_sightings s = 0 \<and>
           median_duration_seconds_overall s = None \<and> median_duration_night_seconds s = None \<and>
           median_duration_day_seconds s = None \<and> proportion_over_5_min_percent s = 0 \<and>
           proportion_over_1_hour_percent s = 0 \<and> sightings_by_year s = [] \<and>
           sightings_by_month s = [] \<and> sightings_by_hour s = []"
  using assms
  by (simp add: perform_eda_def Let_def dropna_def value_counts_def present_def sort_index_def
      rename_index_def round2_def round_half_even_def)

text \<open>
  Claim C2.  The claim says that on an empty clean frame the summary file holds
  \<open>total_sightings = 0\<close>, null medians and zero proportions.  The main block does not call
  \<^verbatim>\<open>perform_eda\<close> then: it writes the empty dictionary as the summary and the empty list as
  the globe file.  The first theorem is the claim as amended: whenever the clean frame is
  empty (in particular when there is no raw row), the main block returns without an error,
  the summary file is the empty dictionary and the globe file the empty list.  The second
  evaluates the main block on the frame without rows: the summary has no entry
  \<open>total_sightings\<close>.  (\<open>perform_eda_empty\<close> above: \<^verbatim>\<open>perform_eda\<close> itself, on an empty frame
  with the three optional columns, gives the values of the claim.)
\<close>

theorem main_empty_clean_set:
  "(rows raw = [] \<longrightarrow> rows (clean_data raw) = []) \<and>
   (rows (clean_data raw) = [] \<longrightarrow>
      main pick raw = Inr \<lparr>eda_summary_json = [], sightings_for_globe_json = []\<rparr>)"
  by (simp add: main_def Let_def export_globe_data_empty clean_data_empty)

theorem main_empty_clean_set_witness:
  "rows (example_frame []) = [] \<and> rows (clean_data (example_frame [])) = [] \<and>
   main first_positions (example_frame []) =
     Inr \<lparr>eda_summary_json = [], sightings_for_globe_json = []\<rparr> \<and>
   rows (clean_data (example_frame [example_row\<lparr>duration_seconds := Some 0\<rparr>])) = [] \<and>
   main first_positions (example_frame [example_row\<lparr>duration_seconds := Some 0\<rparr>]) =
     Inr \<lparr>eda_summary_json = [], sightings_for_globe_json = []\<rparr>"
proof -
  let ?z = "example_frame [example_row\<lparr>duration_seconds := Some 0\<rparr>]"
  have e: "rows (example_frame []) = []" by (simp add: example_frame_def)
  have z: "rows (clean_data ?z) = []" by code_simp
  show ?thesis
    using main_empty_clean_set [of "example_frame []" first_positions]
      main_empty_clean_set [of ?z first_positions] e z by simp
qed

theorem main_empty_input_summary:
  "\<not> isl (main first_positions (example_frame [])) \<and>
   map_of (eda_summary_json (projr (main first_positions (example_frame [])))) ''total_sightings''
     \<noteq> Some (JInt 0) \<and>
   map_of (eda_summary_json (projr (main first_positions (example_frame [])))) ''total_sightings''
     = None \<and>
   eda_summary_json (projr (main first_positions (example_frame []))) = []"
  by (simp add: main_def Let_def clean_data_rows example_frame_def export_globe_data_def)

end
